theory Spec2Isabelle
  imports Complex_Main
begin

section \<open>Python values and exceptions\<close>

text \<open>
  The Entrez parser returns nested values of three kinds: strings, lists and
  dictionaries with string keys. A dictionary is an association list read with
  \<open>map_of\<close> (the first binding of a key is the dictionary's entry for it).
\<close>

datatype pyval = PStr string | PList "pyval list" | PDict "(string \<times> pyval) list"

text \<open>
  The exceptions the script can meet, all subclasses of Python's \<open>Exception\<close>:
  the three raised by subscripting, the \<open>ValueError\<close> of \<open>range\<close> with a zero
  step, and \<open>Failure\<close> for whatever an external library raises (network, embedding
  model, database), with its message. \<open>SystemExit\<close> is not a subclass of
  \<open>Exception\<close>, so it is kept apart.
\<close>

datatype exc = KeyError | TypeError | IndexError | ValueError | Failure string

datatype raised = Exc exc | SystemExit int

definition bindE :: "exc + 'a \<Rightarrow> ('a \<Rightarrow> exc + 'b) \<Rightarrow> exc + 'b" where
  "bindE m f = (case m of Inl e \<Rightarrow> Inl e | Inr x \<Rightarrow> f x)"

text \<open>\<open>v[k]\<close> with a string key \<open>k\<close>.\<close>

fun py_getitem :: "pyval \<Rightarrow> string \<Rightarrow> exc + pyval" where
  "py_getitem (PDict d) k = (case map_of d k of None \<Rightarrow> Inl KeyError | Some v \<Rightarrow> Inr v)"
| "py_getitem (PStr s) k = Inl TypeError"
| "py_getitem (PList l) k = Inl TypeError"

text \<open>\<open>v[0]\<close>. The keys of a dictionary are strings, so \<open>0\<close> is never one of them.\<close>

fun py_getitem0 :: "pyval \<Rightarrow> exc + pyval" where
  "py_getitem0 (PList l) = (case l of [] \<Rightarrow> Inl IndexError | x # _ \<Rightarrow> Inr x)"
| "py_getitem0 (PStr s) = (case s of [] \<Rightarrow> Inl IndexError | c # _ \<Rightarrow> Inr (PStr [c]))"
| "py_getitem0 (PDict d) = Inl KeyError"

definition is_substring :: "string \<Rightarrow> string \<Rightarrow> bool" where
  "is_substring k s = list_ex (\<lambda>i. take (length k) (drop i s) = k) [0..<Suc (length s)]"

text \<open>\<open>k in v\<close> for a string \<open>k\<close>: a key of a dictionary, an element of a list, a
  substring of a string.\<close>

fun py_contains :: "string \<Rightarrow> pyval \<Rightarrow> bool" where
  "py_contains k (PDict d) = (map_of d k \<noteq> None)"
| "py_contains k (PList l) = (PStr k \<in> set l)"
| "py_contains k (PStr s) = is_substring k s"

text \<open>Truth value of a value in a condition: empty strings, lists and dictionaries are false.\<close>

fun py_truthy :: "pyval \<Rightarrow> bool" where
  "py_truthy (PStr s) = (s \<noteq> [])"
| "py_truthy (PList l) = (l \<noteq> [])"
| "py_truthy (PDict d) = (d \<noteq> [])"

fun py_len :: "pyval \<Rightarrow> nat" where
  "py_len (PStr s) = length s"
| "py_len (PList l) = length l"
| "py_len (PDict d) = length (remdups (map fst d))"

text \<open>The sequence a \<open>for\<close> loop runs over: the elements of a list, the characters of a
  string, the keys of a dictionary.\<close>

fun py_iter :: "pyval \<Rightarrow> pyval list" where
  "py_iter (PList l) = l"
| "py_iter (PStr s) = map (\<lambda>c. PStr [c]) s"
| "py_iter (PDict d) = map PStr (remdups (map fst d))"

fun is_PStr :: "pyval \<Rightarrow> bool" where
  "is_PStr (PStr s) = True"
| "is_PStr (PList l) = False"
| "is_PStr (PDict d) = False"

fun str_of :: "pyval \<Rightarrow> string" where
  "str_of (PStr s) = s"
| "str_of (PList l) = []"
| "str_of (PDict d) = []"

fun join :: "string \<Rightarrow> string list \<Rightarrow> string" where
  "join sep [] = []"
| "join sep [s] = s"
| "join sep (s # t # ss) = s @ sep @ join sep (t # ss)"

text \<open>\<open>sep.join(parts)\<close>: every part must be a string, else \<open>TypeError\<close>.\<close>

definition py_join :: "string \<Rightarrow> pyval list \<Rightarrow> exc + pyval" where
  "py_join sep parts =
     (if list_all is_PStr parts then Inr (PStr (join sep (map str_of parts)))
      else Inl TypeError)"

text \<open>
  A replacement field \<open>{v}\<close> of an f-string: a string is inserted as it is. What
  \<open>str\<close> prints for a list or a dictionary is Python's own and is taken as the
  parameter \<open>repr\<close>.
\<close>

fun py_format :: "(pyval \<Rightarrow> string) \<Rightarrow> pyval \<Rightarrow> string" where
  "py_format repr (PStr s) = s"
| "py_format repr (PList l) = repr (PList l)"
| "py_format repr (PDict d) = repr (PDict d)"

section \<open>The Record Fetcher: one raw record\<close>

text \<open>The dictionary appended to \<open>papers\<close> at lines 69 to 74 of load\_data.py.\<close>

record paper =
  paper_pmid :: pyval
  paper_title :: pyval
  paper_abstract :: pyval
  paper_publication_date :: string

text \<open>Lines 54 to 61: the abstract text of an article.\<close>

definition abstract_text_of :: "pyval \<Rightarrow> exc + pyval" where
  "abstract_text_of article =
     (if py_contains ''Abstract'' article then
        bindE (py_getitem article ''Abstract'') (\<lambda>abstract.
        bindE (py_getitem abstract ''AbstractText'') (\<lambda>abstract_parts.
          case abstract_parts of
            PList parts \<Rightarrow> py_join '' '' parts
          | _ \<Rightarrow> Inr abstract_parts))
      else Inr (PStr ''''))"

text \<open>\<open>article['ArticleDate'][0][k]\<close>, evaluated anew for each of the three fields.\<close>

definition article_date_field :: "pyval \<Rightarrow> string \<Rightarrow> exc + pyval" where
  "article_date_field article k =
     bindE (py_getitem article ''ArticleDate'') (\<lambda>dates.
     bindE (py_getitem0 dates) (\<lambda>date. py_getitem date k))"

text \<open>Lines 63 to 66: the publication date.\<close>

definition pub_date_of :: "(pyval \<Rightarrow> string) \<Rightarrow> pyval \<Rightarrow> exc + string" where
  "pub_date_of repr article =
     (if py_contains ''ArticleDate'' article then
        bindE (article_date_field article ''Year'') (\<lambda>year.
        bindE (article_date_field article ''Month'') (\<lambda>month.
        bindE (article_date_field article ''Day'') (\<lambda>day.
          Inr (py_format repr year @ ''-'' @ py_format repr month @ ''-'' @ py_format repr day))))
      else Inr '''')"

text \<open>
  Lines 49 to 74, the body of the \<open>try\<close>: \<open>Inl e\<close> when it raises \<open>e\<close>,
  \<open>Inr (Some p)\<close> when it appends \<open>p\<close>, \<open>Inr None\<close> when it appends nothing.
\<close>

definition process_record :: "(pyval \<Rightarrow> string) \<Rightarrow> pyval \<Rightarrow> exc + paper option" where
  "process_record repr r =
     bindE (py_getitem r ''MedlineCitation'') (\<lambda>citation.
     bindE (py_getitem citation ''Article'') (\<lambda>article.
     bindE (py_getitem r ''MedlineCitation'') (\<lambda>citation'.
     bindE (py_getitem citation' ''PMID'') (\<lambda>pmid.
     bindE (py_getitem article ''ArticleTitle'') (\<lambda>title.
     bindE (abstract_text_of article) (\<lambda>abstract_text.
     bindE (pub_date_of repr article) (\<lambda>pub_date.
       if py_truthy title \<and> py_truthy abstract_text then
         Inr (Some \<lparr>paper_pmid = pmid, paper_title = title,
                     paper_abstract = abstract_text, paper_publication_date = pub_date\<rparr>)
       else Inr None)))))))"

text \<open>
  Lines 46 to 77, the loop: a \<open>KeyError\<close> skips the record, any other exception
  leaves the loop and the function.
\<close>

fun process_records :: "(pyval \<Rightarrow> string) \<Rightarrow> pyval list \<Rightarrow> paper list \<Rightarrow> exc + paper list" where
  "process_records repr [] papers = Inr papers"
| "process_records repr (r # rs) papers =
     (case process_record repr r of
        Inl KeyError \<Rightarrow> process_records repr rs papers
      | Inl e \<Rightarrow> Inl e
      | Inr None \<Rightarrow> process_records repr rs papers
      | Inr (Some p) \<Rightarrow> process_records repr rs (papers @ [p]))"

section \<open>Entities, events and the external services\<close>

text \<open>A row of the array \<open>model.encode\<close> returns, and its \<open>tolist()\<close>.\<close>

datatype 'f ndarray = NDArray "'f list"

fun tolist :: "'f ndarray \<Rightarrow> 'f list" where
  "tolist (NDArray xs) = xs"

text \<open>The class \<open>MedicalAbstract\<close> of models.py; \<open>row_id\<close> is its field \<open>id\<close>.\<close>

record 'f MedicalAbstract =
  row_id :: "nat option"
  pmid :: pyval
  title :: pyval
  abstract :: pyval
  publication_date :: "string option"
  embedding :: "'f list"

text \<open>
  What the script does to the outside world, in order. A printed line is kept as the
  pieces of its f-string: literal text, a number, the text of an exception.
\<close>

datatype frag = FStr string | FNat nat | FExc exc

datatype 'f event =
    Print "frag list"
  | CreateEngine
  | InitStore
  | LoadModel
  | ESearch
  | EFetch pyval
  | Encode "pyval list"
  | AddAll "'f MedicalAbstract list"
  | Commit
  | Sleep

text \<open>
  The external collaborators, each with the exception it may raise:
  \<open>create_engine\<close>; the body of the \<open>try\<close> of \<open>initialize_database\<close> (enabling the
  extension and creating the tables); loading the embedding model; \<open>Entrez.esearch\<close>
  and \<open>Entrez.efetch\<close>, each with its \<open>Entrez.read\<close>; \<open>str\<close> of a value that is
  not a string; \<open>model.encode\<close>; and \<open>session.commit\<close> of the objects added, on a
  store of type \<open>'db\<close>.
\<close>

record ('f, 'db) env =
  create_engine :: "exc + unit"
  init_store :: "exc + unit"
  load_model :: "exc + unit"
  esearch :: "exc + pyval"
  efetch :: "pyval \<Rightarrow> exc + pyval"
  py_repr :: "pyval \<Rightarrow> string"
  encode :: "pyval list \<Rightarrow> exc + 'f ndarray list"
  commit :: "'db \<Rightarrow> 'f MedicalAbstract list \<Rightarrow> exc + 'db"

definition SEARCH_TERM :: string where
  "SEARCH_TERM = ''nutrition AND diabetes''"

definition MAX_PAPERS :: nat where
  "MAX_PAPERS = 500"

definition BATCH_SIZE :: nat where
  "BATCH_SIZE = 100"

definition EMBEDDING_MODEL :: string where
  "EMBEDDING_MODEL = ''all-MiniLM-L6-v2''"

text \<open>Sequencing of steps that log events and may raise.\<close>

definition bindW ::
  "'ev list \<times> (exc + 'a) \<Rightarrow> ('a \<Rightarrow> 'ev list \<times> (exc + 'b)) \<Rightarrow> 'ev list \<times> (exc + 'b)" where
  "bindW m f =
     (case m of
        (evs, Inl e) \<Rightarrow> (evs, Inl e)
      | (evs, Inr x) \<Rightarrow> (case f x of (evs', r) \<Rightarrow> (evs @ evs', r)))"

definition emit :: "'ev list \<Rightarrow> 'ev list \<times> (exc + unit)" where
  "emit evs = (evs, Inr ())"

definition call :: "'ev \<Rightarrow> exc + 'a \<Rightarrow> 'ev list \<times> (exc + 'a)" where
  "call ev r = ([ev], r)"

definition silent :: "exc + 'a \<Rightarrow> 'ev list \<times> (exc + 'a)" where
  "silent r = ([], r)"

section \<open>The Store Initializer\<close>

definition initialize_database :: "('f, 'db) env \<Rightarrow> 'f event list \<times> (raised + unit)" where
  "initialize_database env =
     (case init_store env of
        Inr _ \<Rightarrow>
          ([Print [FStr ''Initializing database...''], InitStore,
            Print [FStr ''Database initialized and pgvector extension is active.'']],
           Inr ())
      | Inl e \<Rightarrow>
          ([Print [FStr ''Initializing database...''], InitStore,
            Print [FStr ''Error initializing database: '', FExc e],
            Print [FStr ''Please ensure you have run 'create extension if not exists vector;' in your Supabase SQL Editor.'']],
           Inl (SystemExit 1)))"

section \<open>The Record Fetcher\<close>

definition fetch_pubmed_abstracts :: "('f, 'db) env \<Rightarrow> 'f event list \<times> (exc + paper list)" where
  "fetch_pubmed_abstracts env =
     bindW (emit [Print [FStr ''Fetching '', FNat MAX_PAPERS, FStr ('' paper IDs for term: '' @ [CHR 0x27]),
                         FStr SEARCH_TERM, FStr (CHR 0x27 # ''...'')]]) (\<lambda>_.
     bindW (call ESearch (esearch env)) (\<lambda>record.
     bindW (silent (py_getitem record ''IdList'')) (\<lambda>id_list.
     bindW (emit [Print [FStr ''Found '', FNat (py_len id_list),
                         FStr '' IDs. Fetching abstracts...'']]) (\<lambda>_.
     bindW (call (EFetch id_list) (efetch env id_list)) (\<lambda>records.
     bindW (emit [Print [FStr ''Abstracts fetched. Processing...'']]) (\<lambda>_.
     bindW (silent (py_getitem records ''PubmedArticle'')) (\<lambda>articles.
     bindW (silent (process_records (py_repr env) (py_iter articles) [])) (\<lambda>papers.
     bindW (emit [Print [FStr ''Successfully processed '', FNat (length papers),
                         FStr '' papers with abstracts.'']]) (\<lambda>_.
     silent (Inr papers))))))))))"

section \<open>The Batch Loader\<close>

text \<open>Lines 98 to 108: one entity for each pair of \<open>zip(batch_papers, embeddings)\<close>.\<close>

definition make_objects :: "paper list \<Rightarrow> 'f ndarray list \<Rightarrow> 'f MedicalAbstract list" where
  "make_objects batch_papers embeddings =
     map (\<lambda>(paper, embedding).
            \<lparr>row_id = None, pmid = paper_pmid paper, title = paper_title paper,
             abstract = paper_abstract paper,
             publication_date = Some (paper_publication_date paper),
             embedding = tolist embedding\<rparr>)
         (zip batch_papers embeddings)"

text \<open>Lines 88 to 116: the body of the loop, for the batch that starts at index \<open>i\<close>.\<close>

definition load_batch ::
  "('f, 'db) env \<Rightarrow> nat \<Rightarrow> paper list \<Rightarrow> nat \<Rightarrow> 'db \<Rightarrow> 'f event list \<times> (exc + unit) \<times> 'db" where
  "load_batch env B papers i db =
     (let batch_papers = take B (drop i papers);
          abstracts_to_embed = map paper_abstract batch_papers;
          generating = [Print [FStr ''  ... Generating embeddings for batch '',
                               FNat (i div B + 1), FStr ''...''],
                        Encode abstracts_to_embed]
      in case encode env abstracts_to_embed of
           Inl e \<Rightarrow> (generating, Inl e, db)
         | Inr embeddings \<Rightarrow>
             (let objects_to_add = make_objects batch_papers embeddings
              in case commit env db objects_to_add of
                   Inl e \<Rightarrow> (generating @ [AddAll objects_to_add, Commit], Inl e, db)
                 | Inr db' \<Rightarrow>
                     (generating @
                      [AddAll objects_to_add, Commit,
                       Print [FStr ''  ... Committed batch '', FNat (i div B + 1), FStr '' ('',
                              FNat (min (i + B) (length papers)), FStr ''/'',
                              FNat (length papers), FStr '' papers)''],
                       Sleep],
                      Inr (), db')))"

text \<open>\<open>range(start, stop, step)\<close> for a step that is not negative; empty for step 0,
  which \<open>load_data_into_db\<close> turns into the \<open>ValueError\<close> that \<open>range\<close> raises.\<close>

function py_range :: "nat \<Rightarrow> nat \<Rightarrow> nat \<Rightarrow> nat list" where
  "py_range start stop step =
     (if 0 < step \<and> start < stop then start # py_range (start + step) stop step else [])"
  by pat_completeness auto
termination
  by (relation "measure (\<lambda>(start, stop, step). stop - start)") auto

fun load_batches ::
  "('f, 'db) env \<Rightarrow> nat \<Rightarrow> paper list \<Rightarrow> nat list \<Rightarrow> 'db \<Rightarrow> 'f event list \<times> (exc + unit) \<times> 'db" where
  "load_batches env B papers [] db = ([], Inr (), db)"
| "load_batches env B papers (i # idxs) db =
     (case load_batch env B papers i db of
        (evs, Inl e, db') \<Rightarrow> (evs, Inl e, db')
      | (evs, Inr _, db') \<Rightarrow>
          (case load_batches env B papers idxs db' of
             (evs', r, db'') \<Rightarrow> (evs @ evs', r, db'')))"

definition load_data_into_db ::
  "('f, 'db) env \<Rightarrow> nat \<Rightarrow> paper list \<Rightarrow> 'db \<Rightarrow> 'f event list \<times> (exc + unit) \<times> 'db" where
  "load_data_into_db env B papers db =
     (let starting = [Print [FStr ''Starting to embed and load '', FNat (length papers),
                             FStr '' papers in batches of '', FNat B, FStr ''...'']]
      in if B = 0 then (starting, Inl ValueError, db)
         else case load_batches env B papers (py_range 0 (length papers) B) db of
                (evs, Inl e, db') \<Rightarrow> (starting @ evs, Inl e, db')
              | (evs, Inr _, db') \<Rightarrow>
                  (starting @ evs @ [Print [FStr ''Data loading complete!'']], Inr (), db'))"

section \<open>The script\<close>

text \<open>Lines 122 to 146: the body of the \<open>try\<close> of \<open>main\<close>.\<close>

definition main_try :: "('f, 'db) env \<Rightarrow> 'db \<Rightarrow> 'f event list \<times> (raised + unit) \<times> 'db" where
  "main_try env db =
     (case create_engine env of
        Inl e \<Rightarrow> ([CreateEngine], Inl (Exc e), db)
      | Inr _ \<Rightarrow>
     (case initialize_database env of
        (init_evs, Inl r) \<Rightarrow> (CreateEngine # init_evs, Inl r, db)
      | (init_evs, Inr _) \<Rightarrow>
     (let loading = CreateEngine # init_evs @
            [Print [FStr (''Loading embedding model: '' @ [CHR 0x27]), FStr EMBEDDING_MODEL, FStr (CHR 0x27 # ''...'')],
             LoadModel]
      in case load_model env of
        Inl e \<Rightarrow> (loading, Inl (Exc e), db)
      | Inr _ \<Rightarrow>
     (case fetch_pubmed_abstracts env of
        (fetch_evs, Inl e) \<Rightarrow>
          (loading @ Print [FStr ''Embedding model loaded.''] # fetch_evs, Inl (Exc e), db)
      | (fetch_evs, Inr papers) \<Rightarrow>
     (let fetched = loading @ Print [FStr ''Embedding model loaded.''] # fetch_evs
      in if papers = [] then
           (fetched @ [Print [FStr ''No papers found. Exiting.'']], Inl (SystemExit 0), db)
         else
     (case load_data_into_db env BATCH_SIZE papers db of
        (load_evs, Inl e, db') \<Rightarrow> (fetched @ load_evs, Inl (Exc e), db')
      | (load_evs, Inr _, db') \<Rightarrow>
          (fetched @ load_evs @
           [Print [FStr ''\<newline>--- SUCCESSFULLY POPULATED YOUR VECTOR DATABASE ---''],
            Print [FStr ''Your Supabase DB now contains '', FNat (length papers),
                   FStr '' medical abstracts, each with a 384-dimension vector embedding.''],
            Print [FStr ''You are now ready for Part 2: Building the RAG API.'']],
           Inr (), db')))))))"

text \<open>Lines 120 to 150: \<open>except Exception\<close> catches every exception but
  \<open>SystemExit\<close>, prints two lines and lets \<open>main\<close> return.\<close>

definition main :: "('f, 'db) env \<Rightarrow> 'db \<Rightarrow> 'f event list \<times> (raised + unit) \<times> 'db" where
  "main env db =
     (case main_try env db of
        (evs, Inl (Exc e), db') \<Rightarrow>
          (evs @
           [Print [FStr ''\<newline>An error occurred: '', FExc e],
            Print [FStr ''Please check your DATABASE_URL in the .env file and ensure your Supabase project is active.'']],
           Inr (), db')
      | (evs, Inl (SystemExit n), db') \<Rightarrow> (evs, Inl (SystemExit n), db')
      | (evs, Inr u, db') \<Rightarrow> (evs, Inr u, db'))"

text \<open>Lines 152 and 153: the exit status of the process. It is 0 when \<open>main\<close>
  returns, the argument of \<open>sys.exit\<close> when that was called, and 1 for an exception
  nothing caught.\<close>

definition script :: "('f, 'db) env \<Rightarrow> 'db \<Rightarrow> 'f event list \<times> int \<times> 'db" where
  "script env db =
     (case main env db of
        (evs, Inr _, db') \<Rightarrow> (evs, 0, db')
      | (evs, Inl (SystemExit n), db') \<Rightarrow> (evs, n, db')
      | (evs, Inl (Exc e), db') \<Rightarrow> (evs, 1, db'))"

section \<open>Vocabulary of the properties\<close>

text \<open>
  The article dates of an article, when it has any, are a list that starts with a
  dictionary: reading a field of the first date then gives a value or \<open>KeyError\<close>.
\<close>

definition dates_well_formed :: "(string \<times> pyval) list \<Rightarrow> bool" where
  "dates_well_formed a =
     (case map_of a ''ArticleDate'' of
        None \<Rightarrow> True
      | Some (PList (PDict date # rest)) \<Rightarrow> True
      | Some _ \<Rightarrow> False)"

text \<open>
  A raw record built of dictionaries that lacks a required field: the citation, the
  article, the identifier, the title, the abstract (in an article whose dates are well
  formed), or the text of an abstract that is there.
\<close>

fun lacks_required_field :: "pyval \<Rightarrow> bool" where
  "lacks_required_field (PDict d) =
     (case map_of d ''MedlineCitation'' of
        None \<Rightarrow> True
      | Some (PDict c) \<Rightarrow>
          (case map_of c ''Article'' of
             None \<Rightarrow> True
           | Some article \<Rightarrow>
               (case map_of c ''PMID'' of
                  None \<Rightarrow> True
                | Some ident \<Rightarrow>
                    (case article of
                       PDict a \<Rightarrow>
                         (case map_of a ''ArticleTitle'' of
                            None \<Rightarrow> True
                          | Some heading \<Rightarrow>
                              (case map_of a ''Abstract'' of
                                 None \<Rightarrow> dates_well_formed a
                               | Some (PDict b) \<Rightarrow> map_of b ''AbstractText'' = None
                               | Some _ \<Rightarrow> False))
                     | _ \<Rightarrow> False)))
      | Some _ \<Rightarrow> False)"
| "lacks_required_field (PStr s) = False"
| "lacks_required_field (PList l) = False"


text \<open>Classes of events: the calls of the Batch Loader, and those that reach the
  literature source or the embedding model.\<close>

fun is_load_event :: "'f event \<Rightarrow> bool" where
  "is_load_event (Encode texts) = True"
| "is_load_event (AddAll objs) = True"
| "is_load_event Commit = True"
| "is_load_event _ = False"

fun is_fetch_or_embed :: "'f event \<Rightarrow> bool" where
  "is_fetch_or_embed ESearch = True"
| "is_fetch_or_embed (EFetch ids) = True"
| "is_fetch_or_embed (Encode texts) = True"
| "is_fetch_or_embed _ = False"

fun added :: "'f event \<Rightarrow> 'f MedicalAbstract list list" where
  "added (AddAll objs) = [objs]"
| "added _ = []"






section \<open>Concrete inputs\<close>

definition no_repr :: "pyval \<Rightarrow> string" where
  "no_repr v = []"

text \<open>A record with a title, no abstract and an empty list of article dates.\<close>

definition abstract_missing_record :: pyval where
  "abstract_missing_record =
     PDict [(''MedlineCitation'',
       PDict [(''PMID'', PStr ''1''),
              (''Article'', PDict [(''ArticleTitle'', PStr ''T''),
                                   (''ArticleDate'', PList [])])])]"

text \<open>A record with a title and a date but no abstract.\<close>

definition no_abstract_record :: pyval where
  "no_abstract_record =
     PDict [(''MedlineCitation'',
       PDict [(''PMID'', PStr ''4''),
              (''Article'', PDict [(''ArticleTitle'', PStr ''T''),
                 (''ArticleDate'',
                    PList [PDict [(''Year'', PStr ''2020''), (''Month'', PStr ''01''),
                                  (''Day'', PStr ''31'')]])])])]"

text \<open>A record whose article has no key \<open>ArticleTitle\<close>.\<close>

definition untitled_record :: pyval where
  "untitled_record =
     PDict [(''MedlineCitation'',
       PDict [(''PMID'', PStr ''3''),
              (''Article'', PDict [(''Abstract'', PDict [(''AbstractText'', PStr ''a'')])])])]"

definition good_article :: "string \<Rightarrow> pyval" where
  "good_article t =
     PDict [(''ArticleTitle'', PStr t),
            (''Abstract'', PDict [(''AbstractText'', PList [PStr ''a'', PStr ''b''])]),
            (''ArticleDate'',
               PList [PDict [(''Year'', PStr ''2020''), (''Month'', PStr ''01''),
                             (''Day'', PStr ''31'')]])]"

definition good_record :: "string \<Rightarrow> pyval" where
  "good_record n =
     PDict [(''MedlineCitation'', PDict [(''PMID'', PStr n), (''Article'', good_article ''T'')])]"

definition good_paper :: "string \<Rightarrow> paper" where
  "good_paper n =
     \<lparr>paper_pmid = PStr n, paper_title = PStr ''T'', paper_abstract = PStr ''a b'',
      paper_publication_date = ''2020-01-31''\<rparr>"

text \<open>A store that keeps its rows in a list, numbers them, and refuses a commit that
  would repeat a \<open>pmid\<close> (the column is declared unique in models.py).\<close>

definition store_commit ::
  "'f MedicalAbstract list \<Rightarrow> 'f MedicalAbstract list \<Rightarrow> exc + 'f MedicalAbstract list" where
  "store_commit db objs =
     (if distinct (map pmid (db @ objs)) then
        Inr (db @ map (\<lambda>(k, obj). obj\<lparr>row_id := Some k\<rparr>)
                      (zip [Suc (length db)..<Suc (length db + length objs)] objs))
      else Inl (Failure ''UniqueViolation''))"

text \<open>An embedding model that returns one row for each text.\<close>

definition demo_encode :: "pyval list \<Rightarrow> exc + real ndarray list" where
  "demo_encode texts = Inr (map (\<lambda>t. NDArray [real (py_len t), 0]) texts)"

text \<open>One that breaks its contract and leaves the last row out.\<close>

definition short_encode :: "pyval list \<Rightarrow> exc + real ndarray list" where
  "short_encode texts = Inr (map (\<lambda>t. NDArray [real (py_len t), 0]) (butlast texts))"

definition demo_efetch :: "pyval list \<Rightarrow> pyval \<Rightarrow> exc + pyval" where
  "demo_efetch records ids = Inr (PDict [(''PubmedArticle'', PList records)])"

text \<open>An environment in which every service answers, the source holding the given
  raw records.\<close>

definition demo_env :: "pyval list \<Rightarrow> (real, real MedicalAbstract list) env" where
  "demo_env records =
     \<lparr>create_engine = Inr (), init_store = Inr (), load_model = Inr (),
      esearch = Inr (PDict [(''IdList'', PList (map (\<lambda>r. PStr ''0'') records))]),
      efetch = demo_efetch records, py_repr = no_repr,
      encode = demo_encode, commit = store_commit\<rparr>"

section \<open>The Record Fetcher: properties\<close>

lemma join_Cons: "join sep (s # ss) = s @ concat (map (\<lambda>t. sep @ t) ss)"
  by (induction ss arbitrary: s) auto

lemma list_all_is_PStr_map: "list_all is_PStr (map PStr ss)"
  by (induction ss) auto

lemma str_of_map_PStr: "map str_of (map PStr ss) = ss"
  by (induction ss) auto

lemma getitem_Inr_contains: "py_getitem v k = Inr x \<Longrightarrow> py_contains k v"
  by (cases v) (auto split: option.splits)

lemma no_abstract_not_retained:
  assumes "map_of a ''ArticleTitle'' = Some heading" and "map_of a ''Abstract'' = None"
    and "dates_well_formed a"
  shows "bindE (py_getitem (PDict a) ''ArticleTitle'') (\<lambda>t.
         bindE (abstract_text_of (PDict a)) (\<lambda>abstract_text.
         bindE (pub_date_of repr (PDict a)) (\<lambda>pub_date.
           if py_truthy t \<and> py_truthy abstract_text then
             Inr (Some \<lparr>paper_pmid = ident, paper_title = t,
                         paper_abstract = abstract_text, paper_publication_date = pub_date\<rparr>)
           else Inr None))) \<in> {Inl KeyError, Inr None}"
proof (cases "map_of a ''ArticleDate''")
  case None
  with assms(1,2) show ?thesis
    by (simp add: abstract_text_of_def pub_date_of_def bindE_def)
next
  case (Some dates)
  with assms(3) obtain date rest where "dates = PList (PDict date # rest)"
    by (auto simp: dates_well_formed_def split: pyval.splits list.splits)
  with Some assms(1,2) show ?thesis
    by (auto simp: abstract_text_of_def pub_date_of_def article_date_field_def bindE_def
             split: option.splits)
qed

lemma lacks_required_field_skipped:
  assumes "lacks_required_field r"
  shows "process_record repr r \<in> {Inl KeyError, Inr None}"
proof (cases r)
  case (PDict d)
  show ?thesis
  proof (cases "map_of d ''MedlineCitation''")
    case None
    then show ?thesis by (simp add: PDict process_record_def bindE_def)
  next
    case (Some mc)
    with assms PDict obtain c where mc: "mc = PDict c" by (cases mc) simp_all
    show ?thesis
    proof (cases "map_of c ''Article''")
      case None
      then show ?thesis by (simp add: PDict Some mc process_record_def bindE_def)
    next
      case A: (Some article)
      show ?thesis
      proof (cases "map_of c ''PMID''")
        case None
        then show ?thesis by (simp add: PDict Some mc A process_record_def bindE_def)
      next
        case P: (Some ident)
        with assms PDict Some mc A obtain a where a: "article = PDict a"
          by (cases article) simp_all
        show ?thesis
        proof (cases "map_of a ''ArticleTitle''")
          case None
          then show ?thesis by (simp add: PDict Some mc A P a process_record_def bindE_def)
        next
          case T: (Some heading)
          show ?thesis
          proof (cases "map_of a ''Abstract''")
            case None
            with assms PDict Some mc A P a T have "dates_well_formed a" by simp
            from no_abstract_not_retained[OF T None this, of repr ident]
            show ?thesis
              by (simp add: PDict Some mc A P a process_record_def bindE_def)
          next
            case B: (Some ab)
            with assms PDict Some mc A P a T obtain b
              where "ab = PDict b" and "map_of b ''AbstractText'' = None"
              by (cases ab) simp_all
            with B show ?thesis
              by (simp add: PDict Some mc A P a T process_record_def abstract_text_of_def bindE_def)
          qed
        qed
      qed
    qed
  qed
next
  case (PStr s)
  with assms show ?thesis by simp
next
  case (PList l)
  with assms show ?thesis by simp
qed

lemma process_records_skip:
  "process_record repr r \<in> {Inl KeyError, Inr None} \<Longrightarrow>
   process_records repr (rs1 @ r # rs2) acc = process_records repr (rs1 @ rs2) acc"
  by (induction rs1 arbitrary: acc) (auto split: sum.splits exc.splits option.splits)





lemma process_good_record:
  "process_record no_repr (good_record n) = Inr (Some (good_paper n))"
  by (simp add: good_record_def good_article_def good_paper_def process_record_def bindE_def
      abstract_text_of_def pub_date_of_def article_date_field_def py_join_def)

lemma process_untitled_record: "process_record no_repr untitled_record = Inl KeyError"
  by (simp add: untitled_record_def process_record_def bindE_def)

lemma process_no_abstract_record: "process_record no_repr no_abstract_record = Inr None"
  by (simp add: no_abstract_record_def process_record_def bindE_def abstract_text_of_def
      pub_date_of_def article_date_field_def)

lemma process_abstract_missing_record:
  "process_record no_repr abstract_missing_record = Inl IndexError"
  by (simp add: abstract_missing_record_def process_record_def bindE_def abstract_text_of_def
      pub_date_of_def article_date_field_def)

lemma fetch_demo_env:
  "snd (fetch_pubmed_abstracts (demo_env rs)) = process_records no_repr rs []"
  by (cases "process_records no_repr rs []")
     (simp_all add: fetch_pubmed_abstracts_def bindW_def emit_def call_def silent_def
        demo_env_def demo_efetch_def)

text \<open>
  C1: a record that lacks a required field (title, abstract, identifier) is skipped and
  the fetch of the other records goes on. The code breaks this for a record that has a
  title, no abstract, and the key \<open>ArticleDate\<close> with an empty list: line 66 reads the
  first date of the list, which raises \<open>IndexError\<close>; the loop catches \<open>KeyError\<close>
  only, so the error leaves the loop and the function, and the well-formed record that
  follows, which the fetch returns when it stands alone, is never returned.
\<close>

theorem empty_article_date_aborts_fetch:
  "process_record no_repr abstract_missing_record = Inl IndexError
   \<and> process_records no_repr [abstract_missing_record, good_record ''2''] [] = Inl IndexError
   \<and> snd (fetch_pubmed_abstracts (demo_env [abstract_missing_record, good_record ''2'']))
       = Inl IndexError
   \<and> snd (fetch_pubmed_abstracts (demo_env [good_record ''2''])) = Inr [good_paper ''2'']"
  by (simp add: fetch_demo_env process_abstract_missing_record process_good_record)

text \<open>
  What the loop does skip: a record made of dictionaries that lacks the citation, the
  article, the identifier, the title, the text of an abstract that is there, or the
  abstract itself when the article's dates are well formed. The loop then returns
  exactly what it returns on the sequence without that record.
\<close>

lemma missing_field_record_skipped:
  "lacks_required_field r \<Longrightarrow>
   process_records repr (rs1 @ r # rs2) acc = process_records repr (rs1 @ rs2) acc"
  by (rule process_records_skip) (rule lacks_required_field_skipped)

lemma untitled_record_skipped:
  "lacks_required_field untitled_record
   \<and> process_records no_repr [good_record ''1'', untitled_record, good_record ''2''] []
       = Inr [good_paper ''1'', good_paper ''2'']"
  by (simp add: untitled_record_def process_good_record
      process_untitled_record[unfolded untitled_record_def])

lemma no_abstract_record_skipped:
  "lacks_required_field no_abstract_record
   \<and> process_records no_repr [good_record ''1'', no_abstract_record, good_record ''2''] []
       = Inr [good_paper ''1'', good_paper ''2'']"
  by (simp add: no_abstract_record_def dates_well_formed_def process_good_record
      process_no_abstract_record[unfolded no_abstract_record_def])



text \<open>
  C8: when the body of the abstract is a list of text parts, the abstract text is the
  parts in their order with one space between neighbours (the empty string for no part);
  a body that is not a list is taken as it is.
\<close>

theorem abstract_text_joined:
  assumes "py_getitem article ''Abstract'' = Inr ab"
    and "py_getitem ab ''AbstractText'' = Inr body"
  shows "(body = PList [] \<longrightarrow> abstract_text_of article = Inr (PStr ''''))
       \<and> (body = PList (map PStr (s # ss)) \<longrightarrow>
            abstract_text_of article = Inr (PStr (s @ concat (map (\<lambda>t. '' '' @ t) ss))))
       \<and> ((\<forall>l. body \<noteq> PList l) \<longrightarrow> abstract_text_of article = Inr body)"
proof -
  have c: "py_contains ''Abstract'' article"
    using assms(1) by (rule getitem_Inr_contains)
  have red: "abstract_text_of article =
               (case body of PList parts \<Rightarrow> py_join '' '' parts | _ \<Rightarrow> Inr body)"
    using c assms by (simp add: abstract_text_of_def bindE_def)
  have a: "body = PList [] \<longrightarrow> abstract_text_of article = Inr (PStr '''')"
    by (simp add: red py_join_def)
  have b: "body = PList (map PStr (s # ss)) \<longrightarrow>
            abstract_text_of article = Inr (PStr (s @ concat (map (\<lambda>t. '' '' @ t) ss)))"
    using list_all_is_PStr_map[of "s # ss"] str_of_map_PStr[of "s # ss"] join_Cons[of "'' ''" s ss]
    by (simp add: red py_join_def del: join.simps)
  have d: "(\<forall>l. body \<noteq> PList l) \<longrightarrow> abstract_text_of article = Inr body"
    by (cases body) (simp_all add: red)
  from a b d show ?thesis by blast
qed

theorem abstract_text_joined_witness:
  "py_getitem (good_article ''T'') ''Abstract''
     = Inr (PDict [(''AbstractText'', PList [PStr ''a'', PStr ''b''])])
   \<and> py_getitem (PDict [(''AbstractText'', PList [PStr ''a'', PStr ''b''])]) ''AbstractText''
     = Inr (PList [PStr ''a'', PStr ''b''])
   \<and> abstract_text_of (good_article ''T'') = Inr (PStr ''a b'')"
proof -
  have h1: "py_getitem (good_article ''T'') ''Abstract''
              = Inr (PDict [(''AbstractText'', PList [PStr ''a'', PStr ''b''])])"
    by (simp add: good_article_def)
  have h2: "py_getitem (PDict [(''AbstractText'', PList [PStr ''a'', PStr ''b''])]) ''AbstractText''
              = Inr (PList [PStr ''a'', PStr ''b''])"
    by simp
  from abstract_text_joined[OF h1 h2, of "''a''" "[''b'']"] h1 h2 show ?thesis by simp
qed

text \<open>
  C9: the publication date of a retained record is the year, month and day of the first
  article date joined by hyphens when the article has the key \<open>ArticleDate\<close>, and the
  empty string when it has not.
\<close>

theorem publication_date_of_retained:
  assumes "process_record repr r = Inr (Some p)"
  shows "\<exists>citation article.
           py_getitem r ''MedlineCitation'' = Inr citation
         \<and> py_getitem citation ''Article'' = Inr article
         \<and> (if py_contains ''ArticleDate'' article then
              \<exists>dates date year month day.
                  py_getitem article ''ArticleDate'' = Inr dates
                \<and> py_getitem0 dates = Inr date
                \<and> py_getitem date ''Year'' = Inr year
                \<and> py_getitem date ''Month'' = Inr month
                \<and> py_getitem date ''Day'' = Inr day
                \<and> paper_publication_date p =
                    py_format repr year @ ''-'' @ py_format repr month @ ''-'' @ py_format repr day
            else paper_publication_date p = '''')"
  using assms
  by (auto simp: process_record_def pub_date_of_def article_date_field_def bindE_def
           split: sum.splits if_splits)

theorem publication_date_of_retained_witness:
  "process_record no_repr (good_record ''1'') = Inr (Some (good_paper ''1''))
   \<and> py_contains ''ArticleDate'' (good_article ''T'')
   \<and> paper_publication_date (good_paper ''1'') = ''2020'' @ ''-'' @ ''01'' @ ''-'' @ ''31''"
proof -
  have h: "process_record no_repr (good_record ''1'') = Inr (Some (good_paper ''1''))"
    by (rule process_good_record)
  from publication_date_of_retained[OF h] h show ?thesis
    by (simp add: good_record_def good_article_def good_paper_def)
qed

section \<open>The Batch Loader: properties\<close>

declare py_range.simps [simp del]






lemma length_make_objects:
  "length (make_objects batch embeddings) = min (length batch) (length embeddings)"
  by (simp add: make_objects_def)

lemma nth_make_objects:
  "j < length batch \<Longrightarrow> j < length embeddings \<Longrightarrow>
   make_objects batch embeddings ! j =
     \<lparr>row_id = None, pmid = paper_pmid (batch ! j), title = paper_title (batch ! j),
      abstract = paper_abstract (batch ! j),
      publication_date = Some (paper_publication_date (batch ! j)),
      embedding = tolist (embeddings ! j)\<rparr>"
  by (simp add: make_objects_def)

lemma zip_take_left: "zip (take (length ys) xs) ys = zip xs ys"
proof (induction xs arbitrary: ys)
  case Nil
  show ?case by simp
next
  case (Cons x xs)
  then show ?case by (cases ys) simp_all
qed

lemma make_objects_take:
  "make_objects batch embeddings = make_objects (take (length embeddings) batch) embeddings"
  by (simp add: make_objects_def zip_take_left)







text \<open>With a model and a store that always answer, every load runs to its end.\<close>

lemma load_batches_succeed:
  assumes "\<And>texts. \<exists>v. encode env texts = Inr v"
    and "\<And>d objs. \<exists>d'. commit env d objs = Inr d'"
  shows "fst (snd (load_batches env B papers idxs db)) = Inr ()"
proof (induction idxs arbitrary: db)
  case Nil
  show ?case by simp
next
  case (Cons i idxs)
  obtain v where v: "encode env (map paper_abstract (take B (drop i papers))) = Inr v"
    using assms(1) by blast
  obtain d' where d: "commit env db (make_objects (take B (drop i papers)) v) = Inr d'"
    using assms(2) by blast
  obtain evs where b: "load_batch env B papers i db = (evs, Inr (), d')"
    using v d by (simp add: load_batch_def Let_def)
  obtain evs2 r2 db2 where r: "load_batches env B papers idxs d' = (evs2, r2, db2)"
    by (cases "load_batches env B papers idxs d'") auto
  with Cons.IH[of d'] have "r2 = Inr ()" by simp
  with b r show ?case by simp
qed

lemma load_data_succeeds:
  assumes "\<And>texts. \<exists>v. encode env texts = Inr v"
    and "\<And>d objs. \<exists>d'. commit env d objs = Inr d'"
    and "0 < B"
  shows "fst (snd (load_data_into_db env B papers db)) = Inr ()"
proof -
  obtain evs r db' where l: "load_batches env B papers (py_range 0 (length papers) B) db = (evs, r, db')"
    by (cases "load_batches env B papers (py_range 0 (length papers) B) db") auto
  with load_batches_succeed[OF assms(1,2), of B papers "py_range 0 (length papers) B" db]
  have "r = Inr ()" by simp
  with l assms(3) show ?thesis by (simp add: load_data_into_db_def Let_def)
qed





text \<open>
  C6: in a batch, the texts given to the embedding model are the abstracts of the
  batch's records in their order, and the entity at each position carries the identifier,
  title, abstract and publication date of the record at that position with the embedding
  returned at that position, as a plain list.
\<close>

theorem batch_pairing:
  assumes "encode env (map paper_abstract (take B (drop i papers))) = Inr embeddings"
  shows "\<exists>p rest objs.
           fst (load_batch env B papers i db) =
             p # Encode (map paper_abstract (take B (drop i papers))) # AddAll objs # Commit # rest
         \<and> length objs = min (length (take B (drop i papers))) (length embeddings)
         \<and> (\<forall>j<length objs.
              objs ! j =
                \<lparr>row_id = None, pmid = paper_pmid (take B (drop i papers) ! j),
                 title = paper_title (take B (drop i papers) ! j),
                 abstract = paper_abstract (take B (drop i papers) ! j),
                 publication_date = Some (paper_publication_date (take B (drop i papers) ! j)),
                 embedding = tolist (embeddings ! j)\<rparr>)"
proof -
  let ?batch = "take B (drop i papers)"
  let ?objs = "make_objects ?batch embeddings"
  have "\<exists>p rest. fst (load_batch env B papers i db) =
          p # Encode (map paper_abstract ?batch) # AddAll ?objs # Commit # rest"
    using assms by (cases "commit env db ?objs") (simp_all add: load_batch_def Let_def)
  moreover have "length ?objs = min (length ?batch) (length embeddings)"
    by (rule length_make_objects)
  moreover have "\<forall>j<length ?objs.
      ?objs ! j =
        \<lparr>row_id = None, pmid = paper_pmid (?batch ! j), title = paper_title (?batch ! j),
         abstract = paper_abstract (?batch ! j),
         publication_date = Some (paper_publication_date (?batch ! j)),
         embedding = tolist (embeddings ! j)\<rparr>"
    using nth_make_objects[of _ ?batch embeddings] by (simp add: length_make_objects)
  ultimately show ?thesis by blast
qed

lemma load_batch_two_papers:
  "load_batch (demo_env []) 2 [good_paper ''1'', good_paper ''2''] 0 [] =
     ([Print [FStr ''  ... Generating embeddings for batch '', FNat 1, FStr ''...''],
       Encode [PStr ''a b'', PStr ''a b''],
       AddAll [\<lparr>row_id = None, pmid = PStr ''1'', title = PStr ''T'', abstract = PStr ''a b'',
                publication_date = Some ''2020-01-31'', embedding = [3, 0]\<rparr>,
               \<lparr>row_id = None, pmid = PStr ''2'', title = PStr ''T'', abstract = PStr ''a b'',
                publication_date = Some ''2020-01-31'', embedding = [3, 0]\<rparr>],
       Commit,
       Print [FStr ''  ... Committed batch '', FNat 1, FStr '' ('', FNat 2, FStr ''/'', FNat 2,
              FStr '' papers)''],
       Sleep],
      Inr (),
      [\<lparr>row_id = Some 1, pmid = PStr ''1'', title = PStr ''T'', abstract = PStr ''a b'',
        publication_date = Some ''2020-01-31'', embedding = [3, 0]\<rparr>,
       \<lparr>row_id = Some 2, pmid = PStr ''2'', title = PStr ''T'', abstract = PStr ''a b'',
        publication_date = Some ''2020-01-31'', embedding = [3, 0]\<rparr>])"
  by (simp add: load_batch_def make_objects_def demo_env_def demo_encode_def store_commit_def
      good_paper_def Let_def upt_conv_Cons)

theorem batch_pairing_witness:
  "encode (demo_env []) (map paper_abstract (take 2 (drop 0 [good_paper ''1'', good_paper ''2''])))
     = Inr [NDArray [3, 0], NDArray [3, 0]]
   \<and> take 4 (fst (load_batch (demo_env []) 2 [good_paper ''1'', good_paper ''2''] 0 [])) =
       [Print [FStr ''  ... Generating embeddings for batch '', FNat 1, FStr ''...''],
        Encode [PStr ''a b'', PStr ''a b''],
        AddAll [\<lparr>row_id = None, pmid = PStr ''1'', title = PStr ''T'', abstract = PStr ''a b'',
                 publication_date = Some ''2020-01-31'', embedding = [3, 0]\<rparr>,
                \<lparr>row_id = None, pmid = PStr ''2'', title = PStr ''T'', abstract = PStr ''a b'',
                 publication_date = Some ''2020-01-31'', embedding = [3, 0]\<rparr>],
        Commit]"
proof -
  have h: "encode (demo_env [])
             (map paper_abstract (take 2 (drop 0 [good_paper ''1'', good_paper ''2''])))
           = Inr [NDArray [3, 0], NDArray [3, 0]]"
    by (simp add: demo_env_def demo_encode_def good_paper_def)
  from batch_pairing[OF h, of "[]"] h show ?thesis
    by (simp add: load_batch_two_papers)
qed

text \<open>
  C10: when the embedding model returns fewer rows than the batch has records and the
  commit goes through, the batch raises nothing: the entities added and committed are
  those of the first records, as many as there are rows, and the records beyond them
  are left out.
\<close>

theorem surplus_records_dropped:
  assumes "encode env (map paper_abstract (take B (drop i papers))) = Inr embeddings"
    and "length embeddings < length (take B (drop i papers))"
    and "commit env db (make_objects (take B (drop i papers)) embeddings) = Inr db'"
  shows "\<exists>evs. load_batch env B papers i db = (evs, Inr (), db')
       \<and> concat (map added evs) =
           [make_objects (take (length embeddings) (take B (drop i papers))) embeddings]
       \<and> length (make_objects (take (length embeddings) (take B (drop i papers))) embeddings)
           = length embeddings"
proof -
  let ?batch = "take B (drop i papers)"
  have t: "make_objects ?batch embeddings = make_objects (take (length embeddings) ?batch) embeddings"
    by (rule make_objects_take)
  have l: "length (make_objects ?batch embeddings) = length embeddings"
    using assms(2) by (simp add: length_make_objects)
  obtain evs r d where e: "load_batch env B papers i db = (evs, r, d)"
    by (cases "load_batch env B papers i db") auto
  with assms(1,3) have "r = Inr ()" and "d = db'"
    and "concat (map added evs) = [make_objects ?batch embeddings]"
    by (auto simp: load_batch_def Let_def)
  with e t l show ?thesis by simp
qed

lemma short_encode_batch:
  "load_batch ((demo_env [])\<lparr>encode := short_encode\<rparr>) 2 [good_paper ''1'', good_paper ''2''] 0 [] =
     ([Print [FStr ''  ... Generating embeddings for batch '', FNat 1, FStr ''...''],
       Encode [PStr ''a b'', PStr ''a b''],
       AddAll [\<lparr>row_id = None, pmid = PStr ''1'', title = PStr ''T'', abstract = PStr ''a b'',
                publication_date = Some ''2020-01-31'', embedding = [3, 0]\<rparr>],
       Commit,
       Print [FStr ''  ... Committed batch '', FNat 1, FStr '' ('', FNat 2, FStr ''/'', FNat 2,
              FStr '' papers)''],
       Sleep],
      Inr (),
      [\<lparr>row_id = Some 1, pmid = PStr ''1'', title = PStr ''T'', abstract = PStr ''a b'',
        publication_date = Some ''2020-01-31'', embedding = [3, 0]\<rparr>])"
  by (simp add: load_batch_def make_objects_def demo_env_def short_encode_def store_commit_def
      good_paper_def Let_def upt_conv_Cons)

theorem surplus_records_dropped_witness:
  "encode ((demo_env [])\<lparr>encode := short_encode\<rparr>)
       (map paper_abstract (take 2 (drop 0 [good_paper ''1'', good_paper ''2''])))
     = Inr [NDArray [3, 0]]
   \<and> length [NDArray [3, 0 :: real]] < length (take 2 (drop 0 [good_paper ''1'', good_paper ''2'']))
   \<and> fst (snd (load_batch ((demo_env [])\<lparr>encode := short_encode\<rparr>) 2
                 [good_paper ''1'', good_paper ''2''] 0 [])) = Inr ()
   \<and> concat (map added (fst (load_batch ((demo_env [])\<lparr>encode := short_encode\<rparr>) 2
                 [good_paper ''1'', good_paper ''2''] 0 []))) =
       [[\<lparr>row_id = None, pmid = PStr ''1'', title = PStr ''T'', abstract = PStr ''a b'',
          publication_date = Some ''2020-01-31'', embedding = [3, 0]\<rparr>]]"
proof -
  let ?env = "(demo_env [])\<lparr>encode := short_encode\<rparr>"
  let ?papers = "[good_paper ''1'', good_paper ''2'']"
  have h1: "encode ?env (map paper_abstract (take 2 (drop 0 ?papers))) = Inr [NDArray [3, 0]]"
    by (simp add: demo_env_def short_encode_def good_paper_def)
  have h2: "length [NDArray [3, 0 :: real]] < length (take 2 (drop 0 ?papers))"
    by simp
  have h3: "commit ?env [] (make_objects (take 2 (drop 0 ?papers)) [NDArray [3, 0]])
            = Inr [\<lparr>row_id = Some 1, pmid = PStr ''1'', title = PStr ''T'', abstract = PStr ''a b'',
                    publication_date = Some ''2020-01-31'', embedding = [3, 0]\<rparr>]"
    by (simp add: demo_env_def store_commit_def make_objects_def good_paper_def upt_conv_Cons)
  from surplus_records_dropped[OF h1 h2 h3] h1 h2 show ?thesis
    by (simp add: short_encode_batch)
qed

section \<open>The script: properties\<close>

lemma bindW_events:
  assumes "\<forall>ev\<in>set (fst m). P ev" and "\<And>x. \<forall>ev\<in>set (fst (f x)). P ev"
  shows "\<forall>ev\<in>set (fst (bindW m f)). P ev"
proof (cases m)
  case (Pair evs r)
  show ?thesis
  proof (cases r)
    case (Inl e)
    with Pair assms(1) show ?thesis by (simp add: bindW_def)
  next
    case (Inr x)
    obtain evs' r' where f: "f x = (evs', r')" by (cases "f x") auto
    with assms(2)[of x] have "\<forall>ev\<in>set evs'. P ev" by simp
    with Pair Inr f assms(1) show ?thesis by (auto simp: bindW_def)
  qed
qed

lemma fetch_events_no_load:
  "\<forall>ev\<in>set (fst (fetch_pubmed_abstracts env)). \<not> is_load_event ev"
  unfolding fetch_pubmed_abstracts_def
  by (intro bindW_events) (simp_all add: emit_def call_def silent_def)

text \<open>A failure of the search, or of the retrieval that follows a search that
  answered with a list of identifiers, is the failure of the fetch.\<close>

lemma esearch_failure:
  "esearch env = Inl e \<Longrightarrow> snd (fetch_pubmed_abstracts env) = Inl e"
  by (simp add: fetch_pubmed_abstracts_def bindW_def emit_def call_def)

lemma efetch_failure:
  "esearch env = Inr found \<Longrightarrow> py_getitem found ''IdList'' = Inr ids \<Longrightarrow>
   efetch env ids = Inl e \<Longrightarrow> snd (fetch_pubmed_abstracts env) = Inl e"
  by (simp add: fetch_pubmed_abstracts_def bindW_def emit_def call_def silent_def)

text \<open>A failure of the embedding model or of the commit is the failure of the
  batch, and the failure of a batch is the failure of the load.\<close>

lemma encode_failure:
  "encode env (map paper_abstract (take B (drop i papers))) = Inl e \<Longrightarrow>
   fst (snd (load_batch env B papers i db)) = Inl e"
  by (simp add: load_batch_def Let_def)

lemma commit_failure:
  "encode env (map paper_abstract (take B (drop i papers))) = Inr embeddings \<Longrightarrow>
   commit env db (make_objects (take B (drop i papers)) embeddings) = Inl e \<Longrightarrow>
   fst (snd (load_batch env B papers i db)) = Inl e"
  by (simp add: load_batch_def Let_def)

lemma first_batch_failure:
  "fst (snd (load_batch env B papers i db)) = Inl e \<Longrightarrow>
   fst (snd (load_batches env B papers (i # idxs) db)) = Inl e"
  by (cases "load_batch env B papers i db") auto

text \<open>
  C4: when the engine, the store and the model are set up and the fetch returns no
  record, the script stops by \<open>sys.exit(0)\<close>: its exit status is 0, the store is as it
  was, and nothing of the Batch Loader has happened (no embedding call, nothing added,
  no commit); the last line printed says that no papers were found.
\<close>

theorem no_papers_exit_zero:
  assumes "create_engine env = Inr ()" and "init_store env = Inr ()"
    and "load_model env = Inr ()" and "snd (fetch_pubmed_abstracts env) = Inr []"
  shows "snd (main env db) = (Inl (SystemExit 0), db)
       \<and> snd (script env db) = (0, db)
       \<and> (\<forall>ev\<in>set (fst (script env db)). \<not> is_load_event ev)
       \<and> last (fst (script env db)) = Print [FStr ''No papers found. Exiting.'']"
proof -
  obtain fevs where f: "fetch_pubmed_abstracts env = (fevs, Inr [])"
    using assms(4) by (cases "fetch_pubmed_abstracts env") auto
  have n: "\<forall>ev\<in>set fevs. \<not> is_load_event ev"
    using fetch_events_no_load[of env] f by simp
  have t: "main_try env db =
      (CreateEngine # fst (initialize_database env) @
         [Print [FStr (''Loading embedding model: '' @ [CHR 0x27]), FStr EMBEDDING_MODEL,
                 FStr (CHR 0x27 # ''...'')], LoadModel]
         @ Print [FStr ''Embedding model loaded.''] # fevs
         @ [Print [FStr ''No papers found. Exiting.'']],
       Inl (SystemExit 0), db)"
    using assms(1,2,3) f by (simp add: main_try_def initialize_database_def Let_def)
  have i: "\<forall>ev\<in>set (fst (initialize_database env)). \<not> is_load_event ev"
    using assms(2) by (simp add: initialize_database_def)
  from t n i show ?thesis
    by (auto simp: main_def script_def)
qed

theorem no_papers_exit_zero_witness:
  "create_engine (demo_env []) = Inr () \<and> init_store (demo_env []) = Inr ()
   \<and> load_model (demo_env []) = Inr ()
   \<and> snd (fetch_pubmed_abstracts (demo_env [])) = Inr []
   \<and> snd (script (demo_env []) []) = (0, [])
   \<and> last (fst (script (demo_env []) [])) = Print [FStr ''No papers found. Exiting.'']"
proof -
  have h1: "create_engine (demo_env []) = Inr ()" by (simp add: demo_env_def)
  have h2: "init_store (demo_env []) = Inr ()" by (simp add: demo_env_def)
  have h3: "load_model (demo_env []) = Inr ()" by (simp add: demo_env_def)
  have h4: "snd (fetch_pubmed_abstracts (demo_env [])) = Inr []"
    by (simp add: fetch_demo_env)
  from no_papers_exit_zero[OF h1 h2 h3 h4, of "[]"] h1 h2 h3 h4 show ?thesis by simp
qed

text \<open>
  C5: when the engine is created and the initialization of the store raises \<open>e\<close>, the
  script prints the error and the advice and ends with exit status 1; what happened
  before is the creation of the engine and the attempt itself, so no search, no
  retrieval and no embedding call, and the store is as it was.
\<close>

theorem init_failure_exit_one:
  assumes "create_engine env = Inr ()" and "init_store env = Inl e"
  shows "script env db =
           ([CreateEngine,
             Print [FStr ''Initializing database...''],
             InitStore,
             Print [FStr ''Error initializing database: '', FExc e],
             Print [FStr ''Please ensure you have run 'create extension if not exists vector;' in your Supabase SQL Editor.'']],
            1, db)
       \<and> filter is_fetch_or_embed (fst (script env db)) = []"
  using assms
  by (simp add: script_def main_def main_try_def initialize_database_def)

theorem init_failure_exit_one_witness:
  "create_engine ((demo_env [])\<lparr>init_store := Inl (Failure ''extension vector is not available'')\<rparr>)
     = Inr ()
   \<and> init_store ((demo_env [])\<lparr>init_store := Inl (Failure ''extension vector is not available'')\<rparr>)
     = Inl (Failure ''extension vector is not available'')
   \<and> fst (snd (script ((demo_env [])\<lparr>init_store := Inl (Failure ''extension vector is not available'')\<rparr>) []))
     = 1"
proof -
  let ?env = "(demo_env [])\<lparr>init_store := Inl (Failure ''extension vector is not available'')\<rparr>"
  have h1: "create_engine ?env = Inr ()" by (simp add: demo_env_def)
  have h2: "init_store ?env = Inl (Failure ''extension vector is not available'')" by simp
  from init_failure_exit_one[OF h1 h2, of "[]"] h1 h2 show ?thesis by simp
qed

text \<open>
  C7: once the engine is created and the store initialized, an exception \<open>e\<close> raised
  by the loading of the model, by the fetch, or by the load of the fetched records is
  what the body of the \<open>try\<close> raises; \<open>main\<close> catches it, prints the two lines of its
  handler after everything that happened before, and returns, so the exit status of the
  script is 0, the status of a run that called no \<open>sys.exit\<close>.
\<close>

theorem late_failure_caught:
  assumes "create_engine env = Inr ()" and "init_store env = Inr ()"
    and "load_model env = Inl e
       \<or> (load_model env = Inr () \<and> snd (fetch_pubmed_abstracts env) = Inl e)
       \<or> (load_model env = Inr ()
          \<and> (\<exists>papers. snd (fetch_pubmed_abstracts env) = Inr papers \<and> papers \<noteq> []
               \<and> fst (snd (load_data_into_db env BATCH_SIZE papers db)) = Inl e))"
  shows "\<exists>evs db'.
           main_try env db = (evs, Inl (Exc e), db')
         \<and> main env db =
             (evs @ [Print [FStr ''\<newline>An error occurred: '', FExc e],
                     Print [FStr ''Please check your DATABASE_URL in the .env file and ensure your Supabase project is active.'']],
              Inr (), db')
         \<and> snd (script env db) = (0, db')"
proof -
  have t: "\<exists>evs db'. main_try env db = (evs, Inl (Exc e), db')"
    using assms(3)
  proof (elim disjE conjE exE)
    assume "load_model env = Inl e"
    with assms(1,2) show ?thesis
      by (simp add: main_try_def initialize_database_def Let_def)
  next
    assume m: "load_model env = Inr ()" and "snd (fetch_pubmed_abstracts env) = Inl e"
    then obtain fevs where "fetch_pubmed_abstracts env = (fevs, Inl e)"
      by (cases "fetch_pubmed_abstracts env") auto
    with assms(1,2) m show ?thesis
      by (simp add: main_try_def initialize_database_def Let_def)
  next
    fix papers
    assume m: "load_model env = Inr ()"
      and "snd (fetch_pubmed_abstracts env) = Inr papers" and ne: "papers \<noteq> []"
      and l: "fst (snd (load_data_into_db env BATCH_SIZE papers db)) = Inl e"
    then obtain fevs where f: "fetch_pubmed_abstracts env = (fevs, Inr papers)"
      by (cases "fetch_pubmed_abstracts env") auto
    obtain levs d where "load_data_into_db env BATCH_SIZE papers db = (levs, Inl e, d)"
      using l by (cases "load_data_into_db env BATCH_SIZE papers db") auto
    with assms(1,2) m f ne show ?thesis
      by (simp add: main_try_def initialize_database_def Let_def)
  qed
  then obtain evs db' where "main_try env db = (evs, Inl (Exc e), db')" by blast
  then show ?thesis by (simp add: main_def script_def)
qed

lemma duplicate_pmid_load:
  "fst (snd (load_data_into_db (demo_env rs) BATCH_SIZE [good_paper ''1'', good_paper ''1''] []))
     = Inl (Failure ''UniqueViolation'')"
  by (simp add: load_data_into_db_def load_batch_def make_objects_def demo_env_def
      demo_encode_def store_commit_def good_paper_def py_range.simps Let_def BATCH_SIZE_def)

theorem late_failure_caught_witness:
  "create_engine (demo_env [good_record ''1'', good_record ''1'']) = Inr ()
   \<and> init_store (demo_env [good_record ''1'', good_record ''1'']) = Inr ()
   \<and> load_model (demo_env [good_record ''1'', good_record ''1'']) = Inr ()
   \<and> snd (fetch_pubmed_abstracts (demo_env [good_record ''1'', good_record ''1'']))
       = Inr [good_paper ''1'', good_paper ''1'']
   \<and> fst (snd (load_data_into_db (demo_env [good_record ''1'', good_record ''1'']) BATCH_SIZE
                 [good_paper ''1'', good_paper ''1''] []))
       = Inl (Failure ''UniqueViolation'')
   \<and> fst (snd (main (demo_env [good_record ''1'', good_record ''1'']) [])) = Inr ()
   \<and> fst (snd (script (demo_env [good_record ''1'', good_record ''1'']) [])) = 0"
proof -
  let ?env = "demo_env [good_record ''1'', good_record ''1'']"
  have h1: "create_engine ?env = Inr ()" by (simp add: demo_env_def)
  have h2: "init_store ?env = Inr ()" by (simp add: demo_env_def)
  have m: "load_model ?env = Inr ()" by (simp add: demo_env_def)
  have f: "snd (fetch_pubmed_abstracts ?env) = Inr [good_paper ''1'', good_paper ''1'']"
    by (simp add: fetch_demo_env process_good_record)
  have l: "fst (snd (load_data_into_db ?env BATCH_SIZE [good_paper ''1'', good_paper ''1''] []))
             = Inl (Failure ''UniqueViolation'')"
    by (rule duplicate_pmid_load)
  have h3: "load_model ?env = Inl (Failure ''UniqueViolation'')
       \<or> (load_model ?env = Inr ()
          \<and> snd (fetch_pubmed_abstracts ?env) = Inl (Failure ''UniqueViolation''))
       \<or> (load_model ?env = Inr ()
          \<and> (\<exists>papers. snd (fetch_pubmed_abstracts ?env) = Inr papers \<and> papers \<noteq> []
               \<and> fst (snd (load_data_into_db ?env BATCH_SIZE papers []))
                   = Inl (Failure ''UniqueViolation'')))"
    using m f l by simp
  from late_failure_caught[OF h1 h2 h3] obtain evs db'
    where "main ?env [] =
             (evs @ [Print [FStr ''\<newline>An error occurred: '', FExc (Failure ''UniqueViolation'')],
                     Print [FStr ''Please check your DATABASE_URL in the .env file and ensure your Supabase project is active.'']],
              Inr (), db')"
      and "snd (script ?env []) = (0, db')"
    by blast
  with h1 h2 m f l show ?thesis by simp
qed

end
